theory Spec2Isabelle
  imports Main "HOL-Library.Word" "HOL-Library.Code_Target_Nat"
begin

section \<open>Values of the session layer\<close>

text \<open>
  The embedding follows \<open>lib/client/opcua_client.js\<close>. Buffers are lists of bytes; a
  property that may hold \<open>null\<close> or \<open>undefined\<close> is an \<open>option\<close> (or one of the small
  value types below when the code tells \<open>undefined\<close> from \<open>null\<close>); every \<open>throw\<close>, failed
  \<open>assert\<close> and \<open>callback(err)\<close> is an \<open>error\<close> value.
\<close>

type_synonym byte = "8 word"
type_synonym buffer = "byte list"

datatype status_code = Good | BadTooManySessions | BadStatus nat

datatype message_security_mode = INVALID | NONE | SIGN | SIGNANDENCRYPT

datatype security_policy = Invalid | None_policy | Basic128Rsa15 | Basic256

datatype token_type = ANONYMOUS | USERNAME | CERTIFICATE | ISSUEDTOKEN

text \<open>
  The errors of the file, named after the taxonomy of the specification. The comment of each
  constructor is the JavaScript value it stands for.
\<close>

datatype error =
    TransportError string
      \<comment> \<open>an \<open>err\<close> handed over by \<open>performMessageTransaction\<close> or by \<open>republish\<close>\<close>
  | EndPointMustExist
      \<comment> \<open>\<open>new Error(" End point must exist " + url)\<close>\<close>
  | TooManySessions status_code
      \<comment> \<open>\<open>new Error("Too Many Sessions : " + serviceResult)\<close>\<close>
  | InvalidServerNonce
      \<comment> \<open>\<open>new Error("invalid server Nonce")\<close>, \<open>new Error("Invalid server Nonce")\<close>\<close>
  | SessionCreationRejected status_code
      \<comment> \<open>\<open>new Error("??? " + serviceResult)\<close>\<close>
  | NoMatchingTokenPolicy token_type
      \<comment> \<open>\<open>new Error("Cannot find ANONYMOUS user token policy in end point description")\<close>,
          and the same for USERNAME\<close>
  | UnsupportedSecurityPolicy
      \<comment> \<open>\<open>new Error(" Unsupported security Policy")\<close>\<close>
  | InvalidIdentityInfo
      \<comment> \<open>\<open>new Error("CLIENT: Invalid userIdentityToken")\<close>\<close>
  | ActivationRejected status_code
      \<comment> \<open>\<open>new Error(serviceResult.toString())\<close>\<close>
  | NoSecureChannel
      \<comment> \<open>\<open>new Error(" No secure channel")\<close>\<close>
  | NoChannel
      \<comment> \<open>\<open>new Error("no channel")\<close>\<close>
  | AssertionError string
      \<comment> \<open>thrown by a failed \<open>assert(...)\<close>; the string tells which one\<close>
  | TypeError string
      \<comment> \<open>thrown by the runtime, as by \<open>new Buffer(null, "utf-8")\<close>\<close>

text \<open>The option \<open>endpoint_must_exist\<close>: absent (\<open>undefined\<close>), \<open>null\<close>, or a boolean.\<close>

datatype jsbool = BUndefined | BNull | BBool bool

fun truthy_jsbool :: "jsbool \<Rightarrow> bool" where
  "truthy_jsbool (BBool b) = b"
| "truthy_jsbool _ = False"

text \<open>A property that holds a string, \<open>null\<close>, or nothing (\<open>undefined\<close>).\<close>

datatype jsstring = SUndefined | SNull | SString string

fun truthy_jsstring :: "jsstring \<Rightarrow> bool" where
  "truthy_jsstring (SString s) = (s \<noteq> [])"
| "truthy_jsstring _ = False"

text \<open>A Buffer is an object: it is truthy whatever its length, also when it is empty.\<close>

fun truthy_buffer :: "buffer option \<Rightarrow> bool" where
  "truthy_buffer None = False"
| "truthy_buffer (Some b) = True"

record user_token_policy =
  policyId :: string
  tokenType :: token_type
  securityPolicyUri :: "string option"

record endpoint_description =
  ep_endpointUrl :: string
  ep_securityMode :: message_security_mode
  ep_securityPolicyUri :: string
  ep_server_applicationUri :: string
  userIdentityTokens :: "user_token_policy list"

record identity_info =
  userName :: jsstring
  password :: jsstring

record user_name_identity_token =
  t_userName :: jsstring
  t_password :: buffer
  t_encryptionAlgorithm :: string
  t_policyId :: string

datatype identity_token =
    AnonymousIdentityToken string
  | UserNameIdentityToken user_name_identity_token

record crypto_factory =
  asymmetricEncryptionAlgorithm :: string
  asymmetricEncrypt :: "buffer \<Rightarrow> buffer \<Rightarrow> buffer"

text \<open>
  The collaborators the file requires from \<open>lib/misc/security_policy\<close>,
  \<open>lib/misc/crypto_utils\<close> and the runtime, none of them part of this file: they are
  parameters of the model.
  \<^item> \<open>fromURI\<close>: the security policy a URI names, \<open>Invalid\<close> when it names none;
  \<^item> \<open>getCryptoFactory\<close>: the algorithm set of a policy, if it has one;
  \<^item> \<open>extractPublicKey\<close>: \<open>toPem\<close> followed by \<open>extractPublicKeyFromCertificateSync\<close>;
  \<^item> \<open>utf8\<close>: the bytes of \<open>new Buffer(s, "utf-8")\<close>.
\<close>

record registry =
  fromURI :: "string option \<Rightarrow> security_policy"
  getCryptoFactory :: "security_policy \<Rightarrow> crypto_factory option"
  extractPublicKey :: "buffer \<Rightarrow> error + buffer"
  utf8 :: "string \<Rightarrow> buffer"

type_synonym client_id = nat
type_synonym session_id = nat

record channel =
  ch_endpoint_url :: string
  ch_securityMode :: message_security_mode
  ch_securityPolicy :: "security_policy option"

record client =
  endpoint_must_exist :: jsbool
  requestedSessionTimeout :: nat
  applicationName :: string
  securityMode :: message_security_mode
  securityPolicy :: "security_policy option"
  secureChannel :: "channel option"
  server_endpoints :: "endpoint_description list"
  endpoint :: "endpoint_description option"
  endpointUrl :: "string option"
  endpoint_url :: "string option"
  serverUri :: "string option"
  sessionName_counter :: nat
  clientNonce :: "buffer option"
  userIdentityInfo :: "identity_info option"
  sessions :: "session_id list"

record session =
  name :: string
  sessionId :: nat
  authenticationToken :: nat
  timeout :: nat
  serverNonce :: "buffer option"
  serverCertificate :: "buffer option"
  serverSignature :: "buffer option"
  serverEndpoints :: "endpoint_description list"
  session_client :: "client_id option"
  session_endpoint :: "endpoint_description option"

text \<open>
  Clients and sessions are objects that refer to each other (\<open>session._client\<close>,
  \<open>client._sessions\<close>), so they live in a store, addressed by identifiers; \<open>fresh\<close> is the
  address of the next session object to be allocated.
\<close>

record world =
  client_of :: "client_id \<Rightarrow> client"
  session_of :: "session_id \<Rightarrow> session"
  fresh :: session_id

record options =
  opt_endpoint_must_exist :: jsbool
  opt_requestedSessionTimeout :: "nat option"
  opt_applicationName :: "string option"
  opt_securityMode :: "message_security_mode option"
  opt_securityPolicy :: "security_policy option"

record create_session_response =
  r_serviceResult :: status_code
  r_sessionId :: nat
  r_authenticationToken :: nat
  r_revisedSessionTimeout :: nat
  r_serverNonce :: "buffer option"
  r_serverCertificate :: "buffer option"
  r_serverSignature :: "buffer option"
  r_serverEndpoints :: "endpoint_description list"

text \<open>
  The \<open>CreateSessionRequest\<close> as \<open>_createSession\<close> builds it. The constructor is given no
  \<open>serverNonce\<close>: reading \<open>request.serverNonce\<close> yields nothing.
\<close>

record create_session_request =
  q_requestedSessionTimeout :: nat
  q_serverUri :: "string option"
  q_endpointUrl :: "string option"
  q_sessionName :: string
  q_clientNonce :: "buffer option"
  q_serverNonce :: "buffer option"

record activate_session_response =
  a_serviceResult :: status_code
  a_serverNonce :: "buffer option"



section \<open>Server nonce\<close>

text \<open>
  \<open>function validateServerNonce(serverNonce) {
      return (serverNonce && serverNonce.length < 32) ? false : true; }\<close>
\<close>

definition validateServerNonce :: "buffer option \<Rightarrow> bool" where
  "validateServerNonce nonce =
     (if truthy_buffer nonce \<and> (case nonce of None \<Rightarrow> False | Some b \<Rightarrow> length b < 32)
      then False else True)"

section \<open>The client and its endpoint\<close>

text \<open>
  The constructor \<open>OPCUAClient(options)\<close>. \<open>a || b\<close> is \<open>b\<close> when \<open>a\<close> is not given, and
  also when it is 0 or the empty string. The base constructor, which is not part of this
  file, sets the security mode and policy and starts with no channel and no session.
\<close>

definition OPCUAClient :: "options \<Rightarrow> client" where
  "OPCUAClient opts =
     \<lparr> endpoint_must_exist =
         (if opt_endpoint_must_exist opts = BNull then BBool True
          else opt_endpoint_must_exist opts),
       requestedSessionTimeout =
         (case opt_requestedSessionTimeout opts of
            None \<Rightarrow> 20000
          | Some t \<Rightarrow> if t = 0 then 20000 else t),
       applicationName =
         (case opt_applicationName opts of
            None \<Rightarrow> ''NodeOPCUA-Client''
          | Some a \<Rightarrow> if a = [] then ''NodeOPCUA-Client'' else a),
       securityMode = (case opt_securityMode opts of None \<Rightarrow> NONE | Some m \<Rightarrow> m),
       securityPolicy = opt_securityPolicy opts,
       secureChannel = None,
       server_endpoints = [],
       endpoint = None,
       endpointUrl = None,
       endpoint_url = None,
       serverUri = None,
       sessionName_counter = 0,
       clientNonce = None,
       userIdentityInfo = None,
       sessions = [] \<rparr>"

text \<open>
  Whether an endpoint has exactly the requested security mode and policy; the policy of an
  endpoint is the one its \<open>securityPolicyUri\<close> names.
\<close>

definition matches_security ::
  "registry \<Rightarrow> message_security_mode \<Rightarrow> security_policy \<Rightarrow> endpoint_description \<Rightarrow> bool" where
  "matches_security reg mode policy e =
     (ep_securityMode e = mode \<and> fromURI reg (Some (ep_securityPolicyUri e)) = policy)"

text \<open>
  Modelled from the spec: \<open>findEndpoint\<close> of the base class \<open>OPCUAClientBase\<close>
  (\<open>lib/client/client_base\<close> is not among the sources). It looks among the endpoints
  the server published for one with the given URL and exactly the requested mode and
  policy.
\<close>

definition findEndpoint ::
  "registry \<Rightarrow> client \<Rightarrow> string \<Rightarrow> message_security_mode \<Rightarrow> security_policy
     \<Rightarrow> endpoint_description option" where
  "findEndpoint reg c url mode policy =
     find (\<lambda>e. ep_endpointUrl e = url \<and> matches_security reg mode policy e) (server_endpoints c)"

text \<open>
  Modelled from the spec: \<open>findEndpointForSecurity\<close> of the base class
  \<open>OPCUAClientBase\<close> (not among the sources). It gives the first published endpoint that
  matches the requested mode and policy, whatever its URL.
\<close>

definition findEndpointForSecurity ::
  "registry \<Rightarrow> client \<Rightarrow> message_security_mode \<Rightarrow> security_policy
     \<Rightarrow> endpoint_description option" where
  "findEndpointForSecurity reg c mode policy =
     find (matches_security reg mode policy) (server_endpoints c)"

text \<open>
  \<open>__resolveEndPoint\<close>, for a client whose channel is \<open>ch\<close> (both callers assert
  \<open>this._secureChannel\<close> first). It returns the boolean and the client with
  \<open>securityPolicy\<close> and \<open>endpoint\<close> as the method leaves them.
\<close>

definition resolveEndPoint :: "registry \<Rightarrow> channel \<Rightarrow> client \<Rightarrow> bool \<times> client" where
  "resolveEndPoint reg ch c =
     (let policy = (case securityPolicy c of None \<Rightarrow> None_policy | Some p \<Rightarrow> p);
          c1 = c\<lparr>securityPolicy := Some policy\<rparr>;
          c2 = c1\<lparr>endpoint := findEndpoint reg c1 (ch_endpoint_url ch) (securityMode c1) policy\<rparr>
      in if endpoint c2 = None then
           (if truthy_jsbool (endpoint_must_exist c2) then (False, c2)
            else (case findEndpointForSecurity reg c2 (securityMode c2) policy of
                    None \<Rightarrow> (False, c2)
                  | Some e \<Rightarrow> (True, c2\<lparr>endpoint := Some e\<rparr>)))
         else (True, c2))"

section \<open>Session collections\<close>

text \<open>
  Modelled from the spec: \<open>_addSession\<close> of the base class \<open>OPCUAClientBase\<close> (not among
  the sources). A client's collection is the set of sessions it owns; adding inserts the
  session. \<open>reactivateSession\<close> asserts \<open>_.contains(self._sessions, session)\<close> after it.
\<close>

definition addSession :: "client_id \<Rightarrow> session_id \<Rightarrow> world \<Rightarrow> world" where
  "addSession cid sid w =
     w\<lparr>client_of := (client_of w)
          (cid := (client_of w cid)\<lparr>sessions := sessions (client_of w cid) @ [sid]\<rparr>)\<rparr>"

text \<open>
  Modelled from the spec: \<open>_removeSession\<close> of the base class \<open>OPCUAClientBase\<close> (not
  among the sources). Removing takes the session out of the collection.
  \<open>reactivateSession\<close> asserts \<open>!_.contains(old_client._sessions, session)\<close> after it.
\<close>

definition removeSession :: "client_id \<Rightarrow> session_id \<Rightarrow> world \<Rightarrow> world" where
  "removeSession cid sid w =
     w\<lparr>client_of := (client_of w)
          (cid := (client_of w cid)\<lparr>sessions := filter (\<lambda>x. x \<noteq> sid) (sessions (client_of w cid))\<rparr>)\<rparr>"

text \<open>
  Modelled from the spec: the constructor of \<open>ClientSession\<close>
  (\<open>lib/client/client_session\<close> is not among the sources). A session is created empty,
  owned by the client that creates it, and carries the endpoint description that client
  resolved.
\<close>

definition ClientSession :: "client_id \<Rightarrow> world \<Rightarrow> session" where
  "ClientSession cid w =
     \<lparr> name = [], sessionId = 0, authenticationToken = 0, timeout = 0,
       serverNonce = None, serverCertificate = None, serverSignature = None,
       serverEndpoints = [], session_client = Some cid,
       session_endpoint = endpoint (client_of w cid) \<rparr>"

text \<open>Writing a client or a session back to the store.\<close>

definition set_client :: "client_id \<Rightarrow> client \<Rightarrow> world \<Rightarrow> world" where
  "set_client cid c w = w\<lparr>client_of := (client_of w)(cid := c)\<rparr>"

definition set_session :: "session_id \<Rightarrow> session \<Rightarrow> world \<Rightarrow> world" where
  "set_session sid s w = w\<lparr>session_of := (session_of w)(sid := s)\<rparr>"

section \<open>CreateSession\<close>

text \<open>
  \<open>_createSession\<close> of client \<open>self\<close>. \<open>rnd\<close> is the result of \<open>crypto.randomBytes(32)\<close> and
  \<open>outcome\<close> what \<open>performMessageTransaction\<close> hands to its callback: a transport error or
  the response. The application description (built from the certificate or the host name)
  goes into the request only and is left out. The result is the pair \<open>(err, session)\<close> of
  the callback: \<open>Inl err\<close>, or \<open>Inr\<close> the new session.
\<close>

fun string_of_nat :: "nat \<Rightarrow> string" where
  "string_of_nat n =
     (if n < 10 then [char_of (48 + n)]
      else string_of_nat (n div 10) @ [char_of (48 + n mod 10)])"

definition createSession_request :: "client \<Rightarrow> buffer \<Rightarrow> create_session_request" where
  "createSession_request c rnd =
     \<lparr> q_requestedSessionTimeout = requestedSessionTimeout c,
       q_serverUri = serverUri c,
       q_endpointUrl = endpoint_url c,
       q_sessionName = ''Session'' @ string_of_nat (sessionName_counter c),
       q_clientNonce = Some rnd,
       q_serverNonce = None \<rparr>"

definition createSession_internal ::
  "registry \<Rightarrow> client_id \<Rightarrow> buffer \<Rightarrow> error + create_session_response \<Rightarrow> world
     \<Rightarrow> (error + session_id) \<times> world" where
  "createSession_internal reg self rnd outcome w =
     (case secureChannel (client_of w self) of
        None \<Rightarrow> (Inl (AssertionError ''this._secureChannel''), w)
      | Some ch \<Rightarrow>
     (let (ok, c1) = resolveEndPoint reg ch (client_of w self) in
      case (if ok then endpoint c1 else None) of
        None \<Rightarrow> (Inl EndPointMustExist, set_client self c1 w)
      | Some ep \<Rightarrow>
     (let c2 = c1\<lparr>serverUri := Some (ep_server_applicationUri ep),
                 endpoint_url := Some (ch_endpoint_url ch)\<rparr> in
      if ep_server_applicationUri ep = [] then
        (Inl (AssertionError ''must have a valid server URI''), set_client self c2 w)
      else if ch_endpoint_url ch = [] then
        (Inl (AssertionError ''must have a valid server endpoint_url''), set_client self c2 w)
      else
     (let c3 = c2\<lparr>clientNonce := Some rnd,
                 sessionName_counter := sessionName_counter c2 + 1\<rparr>;
          request = createSession_request c3 rnd;
          w3 = set_client self c3 w
      in case outcome of
           Inl err \<Rightarrow> (Inl err, w3)
         | Inr response \<Rightarrow>
             if r_serviceResult response = BadTooManySessions then
               (Inl (TooManySessions (r_serviceResult response)), w3)
             else if r_serviceResult response = Good then
               (if \<not> validateServerNonce (q_serverNonce request) then
                  (Inl InvalidServerNonce, w3)
                else
                  (let sid = fresh w3;
                       s = (ClientSession self w3)
                             \<lparr> name := q_sessionName request,
                               sessionId := r_sessionId response,
                               authenticationToken := r_authenticationToken response,
                               timeout := r_revisedSessionTimeout response,
                               serverNonce := r_serverNonce response,
                               serverCertificate := r_serverCertificate response,
                               serverSignature := r_serverSignature response,
                               serverEndpoints := r_serverEndpoints response \<rparr>;
                       c4 = c3\<lparr>server_endpoints := r_serverEndpoints response\<rparr>
                   in (Inr sid,
                       set_client self c4 (set_session sid s (w3\<lparr>fresh := Suc sid\<rparr>)))))
             else (Inl (SessionCreationRejected (r_serviceResult response)), w3)))))"


section \<open>Identity tokens\<close>

definition isAnonymous :: "identity_info option \<Rightarrow> bool" where
  "isAnonymous info =
     (case info of
        None \<Rightarrow> True
      | Some i \<Rightarrow> \<not> truthy_jsstring (userName i) \<and> \<not> truthy_jsstring (password i))"

definition isUserNamePassword :: "identity_info \<Rightarrow> bool" where
  "isUserNamePassword i = (userName i \<noteq> SUndefined \<and> password i \<noteq> SUndefined)"

definition findUserTokenPolicy ::
  "endpoint_description \<Rightarrow> token_type \<Rightarrow> user_token_policy option" where
  "findUserTokenPolicy endpoint_desc userTokenType =
     (case filter (\<lambda>userIdentity. tokenType userIdentity = userTokenType)
             (userIdentityTokens endpoint_desc) of
        [] \<Rightarrow> None
      | r0 # _ \<Rightarrow> Some r0)"

definition createAnonymousIdentityToken :: "session \<Rightarrow> error + identity_token" where
  "createAnonymousIdentityToken s =
     (case session_endpoint s of
        None \<Rightarrow> Inl (AssertionError ''endpoint_desc instanceof EndpointDescription'')
      | Some endpoint_desc \<Rightarrow>
          (case findUserTokenPolicy endpoint_desc ANONYMOUS of
             None \<Rightarrow> Inl (NoMatchingTokenPolicy ANONYMOUS)
           | Some userTokenPolicy \<Rightarrow> Inr (AnonymousIdentityToken (policyId userTokenPolicy))))"

text \<open>
  \<open>lenBuf.writeUInt32LE(value, 0)\<close> on a fresh 4-byte buffer: the four bytes of the value,
  lowest first; the runtime throws when the value does not fit 32 bits.
  \<open>readUInt32LE\<close> is its inverse in the runtime, used to state what the bytes mean.
\<close>

definition writeUInt32LE :: "nat \<Rightarrow> error + buffer" where
  "writeUInt32LE v =
     (if v > 4294967295 then Inl (TypeError ''value is out of bounds'')
      else Inr [of_nat (v mod 256), of_nat (v div 256 mod 256),
                of_nat (v div 65536 mod 256), of_nat (v div 16777216 mod 256)])"

definition readUInt32LE :: "buffer \<Rightarrow> nat" where
  "readUInt32LE b =
     (case b of
        b0 # b1 # b2 # b3 # _ \<Rightarrow> unat b0 + 256 * unat b1 + 65536 * unat b2 + 16777216 * unat b3
      | _ \<Rightarrow> 0)"

text \<open>
  The security policy of a UserName token: the one its token policy names, or, when that is
  \<open>Invalid\<close>, the one of the channel of the client that owns the session.
\<close>

definition token_securityPolicy ::
  "registry \<Rightarrow> world \<Rightarrow> session \<Rightarrow> user_token_policy \<Rightarrow> error + security_policy" where
  "token_securityPolicy reg w s userTokenPolicy =
     (if fromURI reg (securityPolicyUri userTokenPolicy) = Invalid then
        (case session_client s of
           None \<Rightarrow> Inl (TypeError ''session._client'')
         | Some cid \<Rightarrow>
             (case secureChannel (client_of w cid) of
                None \<Rightarrow> Inl (TypeError ''session._client._secureChannel'')
              | Some ch \<Rightarrow>
                  (case ch_securityPolicy ch of
                     None \<Rightarrow> Inl (AssertionError ''securityPolicy'')
                   | Some p \<Rightarrow> Inr p)))
      else Inr (fromURI reg (securityPolicyUri userTokenPolicy)))"

text \<open>
  \<open>createUserNameIdentityToken(session, userName, password)\<close>. \<open>password_block\<close> is the
  \<open>block\<close> of the source: what is handed to \<open>asymmetricEncrypt\<close>.
\<close>

definition password_block :: "buffer \<Rightarrow> buffer \<Rightarrow> error + buffer" where
  "password_block pw nonce =
     (case writeUInt32LE (length pw + length nonce) of
        Inl e \<Rightarrow> Inl e
      | Inr lenBuf \<Rightarrow> Inr (lenBuf @ pw @ nonce))"

definition createUserNameIdentityToken ::
  "registry \<Rightarrow> world \<Rightarrow> session \<Rightarrow> jsstring \<Rightarrow> jsstring \<Rightarrow> error + user_name_identity_token" where
  "createUserNameIdentityToken reg w s uname pword =
     (if uname = SUndefined then
        Inl (AssertionError ''userName === null || typeof userName === string'')
      else if pword = SUndefined then
        Inl (AssertionError ''password === null || typeof password === string'')
      else case session_endpoint s of
        None \<Rightarrow> Inl (AssertionError ''endpoint_desc instanceof EndpointDescription'')
      | Some endpoint_desc \<Rightarrow>
     (case findUserTokenPolicy endpoint_desc USERNAME of
        None \<Rightarrow> Inl (NoMatchingTokenPolicy USERNAME)
      | Some userTokenPolicy \<Rightarrow>
     (case token_securityPolicy reg w s userTokenPolicy of
        Inl e \<Rightarrow> Inl e
      | Inr policy \<Rightarrow>
     (case serverCertificate s of
        None \<Rightarrow> Inl (AssertionError ''serverCertificate instanceof Buffer'')
      | Some cert \<Rightarrow>
     (case extractPublicKey reg cert of
        Inl e \<Rightarrow> Inl e
      | Inr publicKey \<Rightarrow>
     (case serverNonce s of
        None \<Rightarrow> Inl (AssertionError ''serverNonce instanceof Buffer'')
      | Some nonce \<Rightarrow>
     (case getCryptoFactory reg policy of
        None \<Rightarrow> Inl UnsupportedSecurityPolicy
      | Some cryptoFactory \<Rightarrow>
     (case pword of
        SString p \<Rightarrow>
          (case password_block (utf8 reg p) nonce of
             Inl e \<Rightarrow> Inl e
           | Inr block \<Rightarrow>
               Inr \<lparr> t_userName = uname,
                     t_password = asymmetricEncrypt cryptoFactory block publicKey,
                     t_encryptionAlgorithm = asymmetricEncryptionAlgorithm cryptoFactory,
                     t_policyId = policyId userTokenPolicy \<rparr>)
      | _ \<Rightarrow> Inl (TypeError ''new Buffer(password, utf-8)'')))))))))"

text \<open>
  \<open>createUserIdentityToken\<close>: what it hands to its callback, \<open>Inl err\<close> or \<open>Inr\<close> the token.
  The two \<open>try\<close> blocks turn whatever the constructors throw into \<open>callback(err)\<close>.
\<close>

definition createUserIdentityToken ::
  "registry \<Rightarrow> world \<Rightarrow> session \<Rightarrow> identity_info option \<Rightarrow> error + identity_token" where
  "createUserIdentityToken reg w s info =
     (if isAnonymous info then createAnonymousIdentityToken s
      else case info of
        None \<Rightarrow> Inl (TypeError ''userIdentityInfo.userName'')
      | Some i \<Rightarrow>
          if isUserNamePassword i then
            (case createUserNameIdentityToken reg w s (userName i) (password i) of
               Inl e \<Rightarrow> Inl e
             | Inr t \<Rightarrow> Inr (UserNameIdentityToken t))
          else Inl InvalidIdentityInfo)"


section \<open>ActivateSession\<close>

text \<open>
  \<open>_activateSession(session, callback)\<close> of client \<open>self\<close>; \<open>outcome\<close> is what
  \<open>session.performMessageTransaction\<close> hands to its callback. The result is the \<open>err\<close> of
  the callback (\<open>None\<close> for \<open>callback(null, session)\<close>) and the store as the call leaves it.
  The request carries the client signature, which \<open>computeSignature\<close> of
  \<open>lib/misc/security_policy\<close> computes, and the token; what the server makes of them is in
  \<open>outcome\<close>.

  Without a channel the source calls \<open>callback(new Error(" No secure channel"))\<close> and goes
  on: the token is derived, \<open>computeClientSignature\<close> throws on the missing channel inside
  the \<open>try\<close> block of \<open>createUserIdentityToken\<close>, and the error branch restores
  \<open>session._client\<close>. The model returns that first error and the store unchanged.
\<close>

definition activateSession_internal ::
  "registry \<Rightarrow> client_id \<Rightarrow> session_id \<Rightarrow> error + activate_session_response \<Rightarrow> world
     \<Rightarrow> error option \<times> world" where
  "activateSession_internal reg self sid outcome w =
     (case secureChannel (client_of w self) of
        None \<Rightarrow> (Some NoSecureChannel, w)
      | Some ch \<Rightarrow>
     (let old_client = session_client (session_of w sid);
          s1 = (session_of w sid)\<lparr>session_client := Some self\<rparr>;
          w1 = set_session sid s1 w
      in case createUserIdentityToken reg w1 s1 (userIdentityInfo (client_of w1 self)) of
           Inl err \<Rightarrow> (Some err, set_session sid (s1\<lparr>session_client := old_client\<rparr>) w1)
         | Inr userIdentityToken \<Rightarrow>
             (case outcome of
                Inr response \<Rightarrow>
                  if a_serviceResult response = Good then
                    (let s2 = s1\<lparr>serverNonce := a_serverNonce response\<rparr>;
                         w2 = set_session sid s2 w1
                     in if \<not> validateServerNonce (serverNonce s2)
                        then (Some InvalidServerNonce, w2)
                        else (None, w2))
                  else
                    (Some (ActivationRejected (a_serviceResult response)),
                     set_session sid (s1\<lparr>session_client := old_client\<rparr>) w1)
              | Inl err \<Rightarrow>
                  (Some err, set_session sid (s1\<lparr>session_client := old_client\<rparr>) w1))))"

text \<open>
  \<open>reactivateSession(session, callback)\<close> of client \<open>self\<close>: the \<open>err\<close> of the callback, or
  the assertion that was thrown, and the store.
\<close>

definition reactivateSession ::
  "registry \<Rightarrow> client_id \<Rightarrow> session_id \<Rightarrow> error + activate_session_response \<Rightarrow> world
     \<Rightarrow> error option \<times> world" where
  "reactivateSession reg self sid outcome w =
     (case secureChannel (client_of w self) of
        None \<Rightarrow> (Some (AssertionError ''client must be connected first''), w)
      | Some ch \<Rightarrow>
     (let (ok, c1) = resolveEndPoint reg ch (client_of w self);
          w1 = set_client self c1 w
      in if \<not> ok \<or> endpoint c1 = None then (Some EndPointMustExist, w1)
         else case session_client (session_of w1 sid) of
           None \<Rightarrow> (Some (TypeError ''session._client.endpointUrl''), w1)
         | Some old_client \<Rightarrow>
             if endpointUrl (client_of w1 old_client) \<noteq> endpointUrl (client_of w1 self) then
               (Some (AssertionError ''cannot reactivateSession on a different endpoint''), w1)
             else
               (let (err, w2) = activateSession_internal reg self sid outcome w1
                in case err of
                     None \<Rightarrow>
                       (if old_client \<noteq> self
                        then (None, addSession self sid (removeSession old_client sid w2))
                        else (None, w2))
                   | Some e \<Rightarrow> (Some e, w2))))"

text \<open>
  \<open>createSession(userIdentityInfo, callback)\<close>: create, add to the collection, activate.
  The result is the pair \<open>(err, session)\<close> of the callback. Called with the callback alone,
  the identity info is \<open>{}\<close>: user name and password both \<open>undefined\<close>.
\<close>

definition createSession ::
  "registry \<Rightarrow> client_id \<Rightarrow> identity_info option \<Rightarrow> buffer
     \<Rightarrow> error + create_session_response \<Rightarrow> error + activate_session_response \<Rightarrow> world
     \<Rightarrow> (error option \<times> session_id option) \<times> world" where
  "createSession reg self info rnd create_outcome activate_outcome w =
     (let w0 = set_client self ((client_of w self)\<lparr>userIdentityInfo := info\<rparr>) w;
          (r, w1) = createSession_internal reg self rnd create_outcome w0
      in case r of
           Inl err \<Rightarrow> ((Some err, None), w1)
         | Inr sid \<Rightarrow>
             (let w2 = addSession self sid w1;
                  (err, w3) = activateSession_internal reg self sid activate_outcome w2
              in ((err, Some sid), w3)))"

section \<open>CloseSession\<close>

text \<open>
  \<open>_closeSession\<close> and \<open>closeSession(session, callback)\<close>; \<open>outcome\<close> is what
  \<open>session.performMessageTransaction\<close> hands to its callback for the CloseSession
  exchange: an error, or the response, of which only the result code is kept.
  \<open>_closeSession\<close> passes on the pair \<open>(err, response)\<close>; \<open>closeSession\<close> removes the
  session and passes on \<open>err\<close>, or throws when the session is not attached to the client.
\<close>

definition closeSession_internal ::
  "client \<Rightarrow> error + status_code \<Rightarrow> error option \<times> status_code option" where
  "closeSession_internal c outcome =
     (case secureChannel c of
        None \<Rightarrow> (Some NoChannel, None)
      | Some ch \<Rightarrow>
          (case outcome of
             Inl err \<Rightarrow> (Some err, None)
           | Inr response \<Rightarrow> (None, Some response)))"

definition closeSession ::
  "client_id \<Rightarrow> session_id \<Rightarrow> error + status_code \<Rightarrow> world \<Rightarrow> error option \<times> world" where
  "closeSession self sid outcome w =
     (if session_client (session_of w sid) \<noteq> Some self then
        (Some (AssertionError ''session must be attached to self''), w)
      else
        (let (err, response) = closeSession_internal (client_of w self) outcome
         in (err, removeSession self sid w)))"

section \<open>Reconnection\<close>
















section \<open>What a run of the reconnection says\<close>













section \<open>A small installation\<close>

text \<open>
  A registry, an endpoint, clients and sessions to run the operations on: a toy cipher
  (each byte plus one, undone by each byte minus one), one policy with a crypto factory,
  and a server that publishes one endpoint with an anonymous and a user-name token policy.
\<close>

definition demo_factory :: crypto_factory where
  "demo_factory =
     \<lparr> asymmetricEncryptionAlgorithm = ''rsa-1_5'',
       asymmetricEncrypt = (\<lambda>block key. map (\<lambda>b. b + 1) block) \<rparr>"

definition demo_decrypt :: "buffer \<Rightarrow> buffer" where
  "demo_decrypt blob = map (\<lambda>b. b - 1) blob"

definition demo_fromURI :: "string option \<Rightarrow> security_policy" where
  "demo_fromURI uri =
     (if uri = Some ''None'' then None_policy
      else if uri = Some ''Basic128Rsa15'' then Basic128Rsa15
      else if uri = Some ''Basic256'' then Basic256
      else Invalid)"

definition demo_registry :: registry where
  "demo_registry =
     \<lparr> fromURI = demo_fromURI,
       getCryptoFactory = (\<lambda>p. if p = Basic128Rsa15 then Some demo_factory else None),
       extractPublicKey = (\<lambda>cert. if cert = [] then Inl (TypeError ''certificate'') else Inr cert),
       utf8 = map (\<lambda>c. of_nat (of_char c)) \<rparr>"

definition demo_endpoint :: "string \<Rightarrow> endpoint_description" where
  "demo_endpoint url =
     \<lparr> ep_endpointUrl = url,
       ep_securityMode = NONE,
       ep_securityPolicyUri = ''None'',
       ep_server_applicationUri = ''urn:server'',
       userIdentityTokens =
         [\<lparr>policyId = ''anonymous'', tokenType = ANONYMOUS, securityPolicyUri = None\<rparr>,
          \<lparr>policyId = ''username'', tokenType = USERNAME,
           securityPolicyUri = Some ''Basic128Rsa15''\<rparr>] \<rparr>"

definition demo_channel :: channel where
  "demo_channel =
     \<lparr> ch_endpoint_url = ''opc.tcp://host:4840'',
       ch_securityMode = NONE,
       ch_securityPolicy = Some None_policy \<rparr>"

definition demo_options :: options where
  "demo_options =
     \<lparr> opt_endpoint_must_exist = BUndefined,
       opt_requestedSessionTimeout = None,
       opt_applicationName = None,
       opt_securityMode = None,
       opt_securityPolicy = None \<rparr>"

text \<open>A connected client that knows the endpoints of the server and owns the given sessions.\<close>

definition demo_client :: "jsbool \<Rightarrow> string \<Rightarrow> session_id list \<Rightarrow> client" where
  "demo_client must_exist published_url sids =
     (OPCUAClient (demo_options\<lparr>opt_endpoint_must_exist := must_exist\<rparr>))
       \<lparr> secureChannel := Some demo_channel,
         server_endpoints := [demo_endpoint published_url],
         endpointUrl := Some ''opc.tcp://host:4840'',
         sessions := sids \<rparr>"

definition demo_session :: "client_id \<Rightarrow> session" where
  "demo_session owner =
     \<lparr> name = ''Session1'', sessionId = 1, authenticationToken = 7, timeout = 20000,
       serverNonce = Some (replicate 32 0), serverCertificate = Some [1, 2, 3],
       serverSignature = None, serverEndpoints = [],
       session_client = Some owner,
       session_endpoint = Some (demo_endpoint ''opc.tcp://host:4840'') \<rparr>"

text \<open>
  Client 1 owns sessions 11, 12 and 13; client 2 owns session 21; both are connected to the
  same endpoint URL. Client 3 is connected under another \<open>endpointUrl\<close>.
\<close>

definition demo_world :: world where
  "demo_world =
     \<lparr> client_of =
         (\<lambda>cid. if cid = 1 then demo_client (BBool True) ''opc.tcp://host:4840'' [11, 12, 13]
                else if cid = 2 then demo_client (BBool True) ''opc.tcp://host:4840'' [21]
                else (demo_client (BBool True) ''opc.tcp://host:4840'' [])
                       \<lparr>endpointUrl := Some ''opc.tcp://other:4840''\<rparr>),
       session_of = (\<lambda>sid. if sid = 21 then demo_session 2 else demo_session 1),
       fresh = 30 \<rparr>"


definition good_create_response :: "buffer option \<Rightarrow> create_session_response" where
  "good_create_response nonce =
     \<lparr> r_serviceResult = Good, r_sessionId = 5, r_authenticationToken = 9,
       r_revisedSessionTimeout = 20000, r_serverNonce = nonce,
       r_serverCertificate = Some [1, 2, 3], r_serverSignature = None,
       r_serverEndpoints = [demo_endpoint ''opc.tcp://host:4840''] \<rparr>"

definition activate_response :: "status_code \<Rightarrow> buffer option \<Rightarrow> activate_session_response" where
  "activate_response code nonce = \<lparr> a_serviceResult = code, a_serverNonce = nonce \<rparr>"


section \<open>Unfolding the definitions\<close>

lemmas demo_defs =
  demo_world_def demo_client_def demo_session_def demo_endpoint_def demo_channel_def
  demo_options_def demo_registry_def demo_fromURI_def demo_factory_def demo_decrypt_def
  good_create_response_def activate_response_def OPCUAClient_def

lemmas store_defs =
  set_client_def set_session_def addSession_def removeSession_def ClientSession_def

lemmas endpoint_defs =
  resolveEndPoint_def findEndpoint_def findEndpointForSecurity_def matches_security_def

lemmas token_defs =
  createUserIdentityToken_def isAnonymous_def isUserNamePassword_def
  createAnonymousIdentityToken_def createUserNameIdentityToken_def findUserTokenPolicy_def
  token_securityPolicy_def password_block_def writeUInt32LE_def

lemmas run_defs =
  reactivateSession_def activateSession_internal_def validateServerNonce_def
  createSession_def createSession_internal_def createSession_request_def
  closeSession_def closeSession_internal_def


section \<open>C5: which nonces are valid\<close>

text \<open>
  The claim accepts the empty nonce. The code does not: an empty Buffer is an object, so
  it is truthy, and its length 0 is below 32.
\<close>

theorem validateServerNonce_empty_buffer_rejected:
  "validateServerNonce (Some []) = False"
  by (simp add: validateServerNonce_def)

text \<open>
  C5, amended: for every nonce \<open>N\<close>, absent or a buffer of any length,
  \<open>validateServerNonce N\<close> is false if and only if \<open>N\<close> is present and shorter than 32
  bytes. An absent nonce is accepted; a present nonce of length 0 is rejected like every
  other nonce shorter than 32 bytes.
\<close>

theorem validateServerNonce_false_iff:
  "(validateServerNonce N = False) = (\<exists>b. N = Some b \<and> length b < 32) \<and>
   validateServerNonce None = True"
  by (cases N) (simp_all add: validateServerNonce_def)

section \<open>C1: the nonce check of CreateSession\<close>

text \<open>
  Once the request is sent, the result code alone decides what create returns: the nonce
  of the response has no part in it. A transport error never yields a session.
\<close>

lemma createSession_internal_by_result_code:
  assumes ch: "secureChannel (client_of w self) = Some ch"
    and ok: "fst (resolveEndPoint reg ch (client_of w self))"
    and ep: "endpoint (snd (resolveEndPoint reg ch (client_of w self))) = Some ep"
    and uri: "ep_server_applicationUri ep \<noteq> []"
    and url: "ch_endpoint_url ch \<noteq> []"
  shows "fst (createSession_internal reg self rnd (Inr response) w) =
     (if r_serviceResult response = BadTooManySessions
        then Inl (TooManySessions (r_serviceResult response))
      else if r_serviceResult response = Good then Inr (fresh w)
      else Inl (SessionCreationRejected (r_serviceResult response)))"
  using assms
  by (simp add: createSession_internal_def createSession_request_def validateServerNonce_def
        Let_def split_beta set_client_def)

lemma createSession_internal_transport_error:
  "fst (createSession_internal reg self rnd (Inl err) w) = Inr sid \<Longrightarrow> False"
  by (simp add: createSession_internal_def Let_def split_beta
           split: option.splits if_splits)

text \<open>
  C1 says that a Good response whose server nonce is present and shorter than 32 bytes makes
  create fail with InvalidServerNonce. \<open>_createSession\<close> validates
  \<open>request.serverNonce\<close>, which the request does not have, where \<open>_activateSession\<close>
  validates the nonce of the response: on a Good response with a 5-byte nonce, which
  \<open>validateServerNonce\<close> rejects, create returns the new session 30 carrying that nonce.
\<close>

theorem create_returns_session_with_short_nonce:
  "\<not> validateServerNonce (Some [1, 2, 3, 4, 5]) \<and>
   fst (createSession_internal demo_registry 1 (replicate 32 7)
          (Inr (good_create_response (Some [1, 2, 3, 4, 5]))) demo_world) = Inr 30 \<and>
   serverNonce (session_of (snd (createSession_internal demo_registry 1 (replicate 32 7)
          (Inr (good_create_response (Some [1, 2, 3, 4, 5]))) demo_world)) 30)
     = Some [1, 2, 3, 4, 5]"
  by (simp add: validateServerNonce_def createSession_internal_def createSession_request_def
        demo_defs store_defs endpoint_defs)

section \<open>C2: the default of \<open>endpoint_must_exist\<close>\<close>

text \<open>
  Resolution succeeds when an endpoint is published for the URL of the channel with the
  requested mode and policy, or when the client is not strict and some endpoint has the
  requested mode and policy; the endpoint chosen is the former if there is one, else the
  first of the latter.
\<close>

lemma resolveEndPoint_result:
  "fst (resolveEndPoint reg ch c) =
     (let policy = (case securityPolicy c of None \<Rightarrow> None_policy | Some p \<Rightarrow> p) in
      findEndpoint reg c (ch_endpoint_url ch) (securityMode c) policy \<noteq> None \<or>
      (\<not> truthy_jsbool (endpoint_must_exist c) \<and>
       findEndpointForSecurity reg c (securityMode c) policy \<noteq> None))"
  by (auto simp: resolveEndPoint_def Let_def findEndpoint_def findEndpointForSecurity_def
           split: option.splits)

lemma resolveEndPoint_chosen:
  "fst (resolveEndPoint reg ch c) \<Longrightarrow>
   endpoint (snd (resolveEndPoint reg ch c)) =
     (let policy = (case securityPolicy c of None \<Rightarrow> None_policy | Some p \<Rightarrow> p) in
      case findEndpoint reg c (ch_endpoint_url ch) (securityMode c) policy of
        Some e \<Rightarrow> Some e
      | None \<Rightarrow> findEndpointForSecurity reg c (securityMode c) policy)"
  by (auto simp: resolveEndPoint_def Let_def findEndpoint_def findEndpointForSecurity_def
           split: option.splits if_splits)

text \<open>
  C2 says that \<open>endpoint_must_exist\<close> defaults to true when the caller does not give it,
  as the constructor's documentation does. The constructor replaces \<open>null\<close> only: an
  option that is not given is \<open>undefined\<close>, stays \<open>undefined\<close>, and counts as false.
  With the default options, and a server that publishes its endpoint under another URL than
  the channel's, no endpoint is found for the channel's URL, and resolution succeeds all the
  same with the endpoint of the other URL.
\<close>

theorem unspecified_endpoint_must_exist_is_relaxed:
  "opt_endpoint_must_exist demo_options = BUndefined \<and>
   endpoint_must_exist (OPCUAClient demo_options) = BUndefined \<and>
   demo_client BUndefined ''opc.tcp://10.0.0.1:4840'' [] =
     (OPCUAClient demo_options)
       \<lparr> secureChannel := Some demo_channel,
         server_endpoints := [demo_endpoint ''opc.tcp://10.0.0.1:4840''],
         endpointUrl := Some ''opc.tcp://host:4840'',
         sessions := [] \<rparr> \<and>
   findEndpoint demo_registry (demo_client BUndefined ''opc.tcp://10.0.0.1:4840'' [])
     (ch_endpoint_url demo_channel) NONE None_policy = None \<and>
   fst (resolveEndPoint demo_registry demo_channel
          (demo_client BUndefined ''opc.tcp://10.0.0.1:4840'' [])) = True \<and>
   endpoint (snd (resolveEndPoint demo_registry demo_channel
          (demo_client BUndefined ''opc.tcp://10.0.0.1:4840'' [])))
     = Some (demo_endpoint ''opc.tcp://10.0.0.1:4840'')"
  by (simp add: demo_defs endpoint_defs)

section \<open>C3: rollback of the owning client\<close>

text \<open>
  C3 says that every failing activation restores \<open>session._client\<close>, also when the
  exchange succeeded and the refreshed nonce is invalid. The two other failure branches of
  \<open>_activateSession\<close> restore it; the branch of the invalid nonce returns before doing so.
  Session 21 belongs to client 2; client 1 activates it and the server answers Good with a
  3-byte nonce: the activation fails and the session is left attributed to client 1.
\<close>

theorem invalid_nonce_leaves_session_on_new_client:
  "session_client (session_of demo_world 21) = Some 2 \<and>
   fst (activateSession_internal demo_registry 1 21
          (Inr (activate_response Good (Some [1, 2, 3]))) demo_world) = Some InvalidServerNonce \<and>
   session_client (session_of (snd (activateSession_internal demo_registry 1 21
          (Inr (activate_response Good (Some [1, 2, 3]))) demo_world)) 21) = Some 1"
  by (simp add: activateSession_internal_def validateServerNonce_def demo_defs store_defs
        token_defs)


section \<open>C7: the plaintext of the encrypted password\<close>

text \<open>The four bytes \<open>writeUInt32LE\<close> writes read back as the value written.\<close>

lemma le32_linear:
  fixes v q1 q2 q3 x0 x1 x2 :: nat
  assumes "v = 256 * q1 + x0" "q1 = 256 * q2 + x1" "q2 = 256 * q3 + x2"
  shows "x0 + 256 * x1 + 65536 * x2 + 16777216 * q3 = v"
  using assms by simp

lemma le32_sum:
  fixes v :: nat
  assumes le: "v \<le> 4294967295"
  shows "v mod 256 + 256 * (v div 256 mod 256) + 65536 * (v div 65536 mod 256)
           + 16777216 * (v div 16777216 mod 256) = v"
proof -
  have a: "v = 256 * (v div 256) + v mod 256"
    by simp
  have "v div 65536 = v div 256 div 256"
    by (simp add: div_mult2_eq)
  then have b: "v div 256 = 256 * (v div 65536) + v div 256 mod 256"
    by simp
  have "v div 16777216 = v div 65536 div 256"
    by (simp add: div_mult2_eq)
  then have c: "v div 65536 = 256 * (v div 16777216) + v div 65536 mod 256"
    by simp
  have "v div 16777216 < 256"
    using le by (simp add: div_less_iff_less_mult)
  then have d: "v div 16777216 mod 256 = v div 16777216"
    by simp
  show ?thesis
    unfolding d by (rule le32_linear [OF a b c])
qed

lemma readUInt32LE_writeUInt32LE:
  assumes "writeUInt32LE v = Inr b"
  shows "length b = 4 \<and> readUInt32LE b = v"
proof -
  from assms have le: "v \<le> 4294967295"
    by (simp add: writeUInt32LE_def split: if_splits)
  from assms le have b: "b = [of_nat (v mod 256), of_nat (v div 256 mod 256),
                of_nat (v div 65536 mod 256), of_nat (v div 16777216 mod 256)]"
    by (simp add: writeUInt32LE_def)
  have u: "\<And>n. unat (of_nat (n mod 256) :: byte) = n mod 256"
    by (simp add: unat_of_nat)
  have "readUInt32LE b = v mod 256 + 256 * (v div 256 mod 256) + 65536 * (v div 65536 mod 256)
           + 16777216 * (v div 16777216 mod 256)"
    unfolding b readUInt32LE_def by (simp only: list.case u)
  then have rd: "readUInt32LE b = v"
    by (simp only: le32_sum [OF le])
  have len: "length b = 4"
    unfolding b by simp
  from len rd show ?thesis
    by (rule conjI)
qed

lemma password_block_shape:
  assumes "password_block pw nonce = Inr block"
  shows "\<exists>lenBuf. block = lenBuf @ pw @ nonce \<and> length lenBuf = 4 \<and>
           readUInt32LE lenBuf = length pw + length nonce"
proof -
  from assms obtain lenBuf where
    w: "writeUInt32LE (length pw + length nonce) = Inr lenBuf" and
    b: "block = lenBuf @ pw @ nonce"
    by (auto simp: password_block_def split: sum.splits)
  from readUInt32LE_writeUInt32LE [OF w] b show ?thesis
    by blast
qed

lemma createUserNameIdentityToken_Inr:
  assumes "createUserNameIdentityToken reg w s uname pword = Inr tok"
    and "serverCertificate s = Some cert"
    and "extractPublicKey reg cert = Inr publicKey"
  shows "\<exists>pw nonce policy cf block.
           pword = SString pw \<and> serverNonce s = Some nonce \<and>
           getCryptoFactory reg policy = Some cf \<and>
           password_block (utf8 reg pw) nonce = Inr block \<and>
           t_password tok = asymmetricEncrypt cf block publicKey"
  using assms
  by (fastforce simp: createUserNameIdentityToken_def
           split: if_splits option.splits sum.splits jsstring.splits)

text \<open>
  C7: whenever the derivation of a UserNamePassword token succeeds, the block handed to
  \<open>asymmetricEncrypt\<close> (with the public key of the server certificate) is a 4-byte
  little-endian length prefix, which holds the length of password and nonce together,
  followed by the UTF-8 bytes of the password, followed by the server nonce of the session;
  so decrypting the encrypted password with the matching private key gives exactly
  prefix, password, nonce. \<open>decrypt\<close> stands for decryption with the private key that
  matches \<open>publicKey\<close>.
\<close>

theorem password_plaintext_block:
  assumes ok: "createUserNameIdentityToken reg w s uname pword = Inr tok"
    and cert: "serverCertificate s = Some cert"
    and key: "extractPublicKey reg cert = Inr publicKey"
    and dec: "\<And>p cf block. getCryptoFactory reg p = Some cf
                \<Longrightarrow> decrypt (asymmetricEncrypt cf block publicKey) = block"
  shows "\<exists>pw nonce lenBuf (cf :: crypto_factory).
           pword = SString pw \<and> serverNonce s = Some nonce \<and>
           length lenBuf = 4 \<and>
           readUInt32LE lenBuf = length (utf8 reg pw) + length nonce \<and>
           t_password tok = asymmetricEncrypt cf (lenBuf @ utf8 reg pw @ nonce) publicKey \<and>
           decrypt (t_password tok) = lenBuf @ utf8 reg pw @ nonce"
proof -
  from createUserNameIdentityToken_Inr [OF ok cert key]
  obtain pw nonce policy cf block where
    p: "pword = SString pw" and n: "serverNonce s = Some nonce" and
    cf: "getCryptoFactory reg policy = Some cf" and
    blk: "password_block (utf8 reg pw) nonce = Inr block" and
    enc: "t_password tok = asymmetricEncrypt cf block publicKey"
    by (elim exE conjE)
  from password_block_shape [OF blk] obtain lenBuf where
    b: "block = lenBuf @ utf8 reg pw @ nonce" and l: "length lenBuf = 4" and
    r: "readUInt32LE lenBuf = length (utf8 reg pw) + length nonce"
    by (elim exE conjE)
  from enc b
  have e1: "t_password tok = asymmetricEncrypt cf (lenBuf @ utf8 reg pw @ nonce) publicKey"
    by simp
  from dec [OF cf] e1 have e2: "decrypt (t_password tok) = lenBuf @ utf8 reg pw @ nonce"
    by simp
  from p n l r e1 e2 show ?thesis
    by (intro exI conjI)
qed

text \<open>
  The user JoeDoe with the password "secret" and a nonce of 32 zero bytes: the prefix
  reads 38.
\<close>

theorem password_plaintext_block_witness:
  "createUserNameIdentityToken demo_registry demo_world (demo_session 1)
     (SString ''JoeDoe'') (SString ''secret'')
     = Inr \<lparr> t_userName = SString ''JoeDoe'',
             t_password = [39, 1, 1, 1, 116, 102, 100, 115, 102, 117] @ replicate 32 1,
             t_encryptionAlgorithm = ''rsa-1_5'', t_policyId = ''username'' \<rparr> \<and>
   (\<exists>lenBuf. length lenBuf = 4 \<and> readUInt32LE lenBuf = 38 \<and>
      demo_decrypt ([39, 1, 1, 1, 116, 102, 100, 115, 102, 117] @ replicate 32 1)
        = lenBuf @ [115, 101, 99, 114, 101, 116] @ replicate 32 0)"
proof -
  let ?tok = "\<lparr> t_userName = SString ''JoeDoe'',
             t_password = [39, 1, 1, 1, 116, 102, 100, 115, 102, 117] @ replicate 32 1,
             t_encryptionAlgorithm = ''rsa-1_5'', t_policyId = ''username'' \<rparr>"
  have ok: "createUserNameIdentityToken demo_registry demo_world (demo_session 1)
     (SString ''JoeDoe'') (SString ''secret'') = Inr ?tok"
    by (simp add: token_defs demo_defs)
  have cert: "serverCertificate (demo_session 1) = Some [1, 2, 3]"
    by (simp add: demo_session_def)
  have key: "extractPublicKey demo_registry [1, 2, 3] = Inr [1, 2, 3]"
    by (simp add: demo_registry_def)
  have dec: "\<And>p cf block. getCryptoFactory demo_registry p = Some cf
                \<Longrightarrow> demo_decrypt (asymmetricEncrypt cf block [1, 2, 3]) = block"
    by (auto simp: demo_registry_def demo_factory_def demo_decrypt_def comp_def
             split: if_splits)
  have u: "utf8 demo_registry ''secret'' = [115, 101, 99, 114, 101, 116]"
    by (simp add: demo_registry_def)
  have n: "serverNonce (demo_session 1) = Some (replicate 32 0)"
    by (simp add: demo_session_def)
  have inst: "\<exists>pw nonce lenBuf (cf :: crypto_factory).
           SString ''secret'' = SString pw \<and> serverNonce (demo_session 1) = Some nonce \<and>
           length lenBuf = 4 \<and>
           readUInt32LE lenBuf = length (utf8 demo_registry pw) + length nonce \<and>
           t_password ?tok
             = asymmetricEncrypt cf (lenBuf @ utf8 demo_registry pw @ nonce) [1, 2, 3] \<and>
           demo_decrypt (t_password ?tok) = lenBuf @ utf8 demo_registry pw @ nonce"
    by (rule password_plaintext_block [where decrypt = demo_decrypt, OF ok cert key])
       (erule dec)
  from inst obtain pw nonce lenBuf where
    a: "SString ''secret'' = SString pw" and b: "serverNonce (demo_session 1) = Some nonce"
    and c: "length lenBuf = 4"
    and d: "readUInt32LE lenBuf = length (utf8 demo_registry pw) + length nonce"
    and e: "demo_decrypt (t_password ?tok) = lenBuf @ utf8 demo_registry pw @ nonce"
    by (elim exE conjE)
  from a have pw: "pw = ''secret''"
    by simp
  from b n have nonce: "nonce = replicate 32 0"
    by simp
  from d have d': "readUInt32LE lenBuf = 38"
    unfolding pw nonce u by simp
  from e have e': "demo_decrypt ([39, 1, 1, 1, 116, 102, 100, 115, 102, 117] @ replicate 32 1)
        = lenBuf @ [115, 101, 99, 114, 101, 116] @ replicate 32 0"
    unfolding pw nonce u by (simp only: user_name_identity_token.simps)
  from c d' e' have "\<exists>lenBuf. length lenBuf = 4 \<and> readUInt32LE lenBuf = 38 \<and>
      demo_decrypt ([39, 1, 1, 1, 116, 102, 100, 115, 102, 117] @ replicate 32 1)
        = lenBuf @ [115, 101, 99, 114, 101, 116] @ replicate 32 0"
    by (intro exI conjI)
  with ok show ?thesis
    by (rule conjI)
qed


section \<open>C6: which token is derived\<close>

text \<open>
  The claim sorts identity infos by which of user name and password are present.
  \<open>isAnonymous\<close> asks whether both are falsy and \<open>isUserNamePassword\<close> whether both are
  other than \<open>undefined\<close>, and the two do not agree on the empty string. With user name
  and password both the empty string, both are given and the token is Anonymous, not
  UserNamePassword. With the user name JoeDoe and the empty password, the password is
  given but holds nothing, and the token is UserNamePassword: nothing fails with
  InvalidIdentityInfo.
\<close>

theorem identity_classification_counterexample:
  "createUserIdentityToken demo_registry demo_world (demo_session 1)
     (Some \<lparr>userName = SString '''', password = SString ''''\<rparr>)
     = Inr (AnonymousIdentityToken ''anonymous'') \<and>
   createUserIdentityToken demo_registry demo_world (demo_session 1)
     (Some \<lparr>userName = SString ''JoeDoe'', password = SString ''''\<rparr>)
     = Inr (UserNameIdentityToken
              \<lparr> t_userName = SString ''JoeDoe'',
                t_password = [33, 1, 1, 1] @ replicate 32 1,
                t_encryptionAlgorithm = ''rsa-1_5'', t_policyId = ''username'' \<rparr>)"
  by (simp add: token_defs demo_defs)

text \<open>
  C6, amended: for every identity info passed to token derivation: if it is absent, or
  its user name and password are both falsy (not given, \<open>null\<close> or the empty string), the
  Anonymous derivation is taken, which yields an Anonymous token or its own failure, never
  InvalidIdentityInfo; otherwise, if user name and password are both other than
  \<open>undefined\<close>, the UserNamePassword derivation is taken; otherwise (one of the two is not
  given and the other is a non-empty string) derivation fails with InvalidIdentityInfo.
\<close>

theorem createUserIdentityToken_classification:
  fixes i :: identity_info
  shows
  "createUserIdentityToken reg w s None = createAnonymousIdentityToken s \<and>
   (\<not> truthy_jsstring (userName i) \<and> \<not> truthy_jsstring (password i) \<longrightarrow>
      createUserIdentityToken reg w s (Some i) = createAnonymousIdentityToken s) \<and>
   ((truthy_jsstring (userName i) \<or> truthy_jsstring (password i)) \<and>
    userName i \<noteq> SUndefined \<and> password i \<noteq> SUndefined \<longrightarrow>
      createUserIdentityToken reg w s (Some i) =
        (case createUserNameIdentityToken reg w s (userName i) (password i) of
           Inl e \<Rightarrow> Inl e
         | Inr t \<Rightarrow> Inr (UserNameIdentityToken t))) \<and>
   ((truthy_jsstring (userName i) \<or> truthy_jsstring (password i)) \<and>
    (userName i = SUndefined \<or> password i = SUndefined) \<longrightarrow>
      createUserIdentityToken reg w s (Some i) = Inl InvalidIdentityInfo) \<and>
   (\<forall>t. createAnonymousIdentityToken s = Inr t \<longrightarrow> (\<exists>pid. t = AnonymousIdentityToken pid)) \<and>
   createAnonymousIdentityToken s \<noteq> Inl InvalidIdentityInfo"
proof -
  have none: "createUserIdentityToken reg w s None = createAnonymousIdentityToken s"
    by (simp add: createUserIdentityToken_def isAnonymous_def)
  have anon: "\<not> truthy_jsstring (userName i) \<and> \<not> truthy_jsstring (password i) \<longrightarrow>
      createUserIdentityToken reg w s (Some i) = createAnonymousIdentityToken s"
    by (simp add: createUserIdentityToken_def isAnonymous_def)
  have both: "(truthy_jsstring (userName i) \<or> truthy_jsstring (password i)) \<and>
    userName i \<noteq> SUndefined \<and> password i \<noteq> SUndefined \<longrightarrow>
      createUserIdentityToken reg w s (Some i) =
        (case createUserNameIdentityToken reg w s (userName i) (password i) of
           Inl e \<Rightarrow> Inl e
         | Inr t \<Rightarrow> Inr (UserNameIdentityToken t))"
    by (auto simp: createUserIdentityToken_def isAnonymous_def isUserNamePassword_def)
  have other: "(truthy_jsstring (userName i) \<or> truthy_jsstring (password i)) \<and>
    (userName i = SUndefined \<or> password i = SUndefined) \<longrightarrow>
      createUserIdentityToken reg w s (Some i) = Inl InvalidIdentityInfo"
    by (auto simp: createUserIdentityToken_def isAnonymous_def isUserNamePassword_def)
  have tok: "\<forall>t. createAnonymousIdentityToken s = Inr t \<longrightarrow> (\<exists>pid. t = AnonymousIdentityToken pid)"
    by (auto simp: createAnonymousIdentityToken_def split: option.splits)
  have ne: "createAnonymousIdentityToken s \<noteq> Inl InvalidIdentityInfo"
    by (simp add: createAnonymousIdentityToken_def split: option.splits)
  from none anon both other tok ne show ?thesis
    by (intro conjI)
qed

text \<open>
  One identity info of each kind, on a session whose endpoint has both token policies:
  \<open>{}\<close>, \<open>{userName: "JoeDoe", password: "secret"}\<close> and \<open>{userName: "JoeDoe"}\<close>.
\<close>

theorem createUserIdentityToken_classification_witness:
  "createUserIdentityToken demo_registry demo_world (demo_session 1)
     (Some \<lparr>userName = SUndefined, password = SUndefined\<rparr>)
     = Inr (AnonymousIdentityToken ''anonymous'') \<and>
   createUserIdentityToken demo_registry demo_world (demo_session 1)
     (Some \<lparr>userName = SString ''JoeDoe'', password = SString ''secret''\<rparr>)
     = Inr (UserNameIdentityToken
              \<lparr> t_userName = SString ''JoeDoe'',
                t_password = [39, 1, 1, 1, 116, 102, 100, 115, 102, 117] @ replicate 32 1,
                t_encryptionAlgorithm = ''rsa-1_5'', t_policyId = ''username'' \<rparr>) \<and>
   createUserIdentityToken demo_registry demo_world (demo_session 1)
     (Some \<lparr>userName = SString ''JoeDoe'', password = SUndefined\<rparr>)
     = Inl InvalidIdentityInfo"
proof -
  let ?i1 = "\<lparr>userName = SUndefined, password = SUndefined\<rparr>"
  let ?i2 = "\<lparr>userName = SString ''JoeDoe'', password = SString ''secret''\<rparr>"
  let ?i3 = "\<lparr>userName = SString ''JoeDoe'', password = SUndefined\<rparr>"
  note c1 = createUserIdentityToken_classification
              [where i = ?i1 and reg = demo_registry and w = demo_world and s = "demo_session 1"]
  note c2 = createUserIdentityToken_classification
              [where i = ?i2 and reg = demo_registry and w = demo_world and s = "demo_session 1"]
  note c3 = createUserIdentityToken_classification
              [where i = ?i3 and reg = demo_registry and w = demo_world and s = "demo_session 1"]
  have a: "createAnonymousIdentityToken (demo_session 1) = Inr (AnonymousIdentityToken ''anonymous'')"
    by (simp add: token_defs demo_defs)
  have u: "createUserNameIdentityToken demo_registry demo_world (demo_session 1)
             (SString ''JoeDoe'') (SString ''secret'')
           = Inr \<lparr> t_userName = SString ''JoeDoe'',
                t_password = [39, 1, 1, 1, 116, 102, 100, 115, 102, 117] @ replicate 32 1,
                t_encryptionAlgorithm = ''rsa-1_5'', t_policyId = ''username'' \<rparr>"
    by (simp add: token_defs demo_defs)
  from c1 a have r1: "createUserIdentityToken demo_registry demo_world (demo_session 1) (Some ?i1)
     = Inr (AnonymousIdentityToken ''anonymous'')"
    by simp
  from c2 u have r2: "createUserIdentityToken demo_registry demo_world (demo_session 1) (Some ?i2)
     = Inr (UserNameIdentityToken
              \<lparr> t_userName = SString ''JoeDoe'',
                t_password = [39, 1, 1, 1, 116, 102, 100, 115, 102, 117] @ replicate 32 1,
                t_encryptionAlgorithm = ''rsa-1_5'', t_policyId = ''username'' \<rparr>)"
    by simp
  from c3 have r3: "createUserIdentityToken demo_registry demo_world (demo_session 1) (Some ?i3)
     = Inl InvalidIdentityInfo"
    by simp
  from r1 r2 r3 show ?thesis
    by (intro conjI)
qed


section \<open>What the operations leave alone\<close>

text \<open>
  Resolving the endpoint touches \<open>securityPolicy\<close> and \<open>endpoint\<close> of the client only;
  activating touches the one session only, and no client.
\<close>

lemma resolveEndPoint_frame:
  "sessions (snd (resolveEndPoint reg ch c)) = sessions c"
  "endpointUrl (snd (resolveEndPoint reg ch c)) = endpointUrl c"
  "secureChannel (snd (resolveEndPoint reg ch c)) = secureChannel c"
  "userIdentityInfo (snd (resolveEndPoint reg ch c)) = userIdentityInfo c"
  by (simp_all add: resolveEndPoint_def Let_def split: option.splits)

lemma resolveEndPoint_endpoint:
  "fst (resolveEndPoint reg ch c) \<Longrightarrow> endpoint (snd (resolveEndPoint reg ch c)) \<noteq> None"
  by (auto simp: resolveEndPoint_def Let_def split: option.splits if_splits)

lemma activateSession_client_of:
  "client_of (snd (activateSession_internal reg self sid outcome w)) = client_of w"
  by (simp add: activateSession_internal_def set_session_def Let_def
           split: option.splits sum.splits)

lemma activateSession_other_session:
  "sid' \<noteq> sid \<Longrightarrow>
   session_of (snd (activateSession_internal reg self sid outcome w)) sid' = session_of w sid'"
  by (simp add: activateSession_internal_def set_session_def Let_def
           split: option.splits sum.splits)

lemma activateSession_failure_owner:
  "fst (activateSession_internal reg self sid outcome w) = Some e \<Longrightarrow> e \<noteq> InvalidServerNonce \<Longrightarrow>
   session_client (session_of (snd (activateSession_internal reg self sid outcome w)) sid)
     = session_client (session_of w sid)"
  by (auto simp: activateSession_internal_def set_session_def Let_def
           split: option.splits sum.splits if_splits)


lemma set_client_frame:
  "session_of (set_client cid c w) = session_of w"
  "client_of (set_client cid c w) cid' = (if cid' = cid then c else client_of w cid')"
  by (simp_all add: set_client_def)

lemma sessions_after_resolve:
  "sessions (client_of (set_client self (snd (resolveEndPoint reg ch (client_of w self))) w) c)
     = sessions (client_of w c)"
  by (simp add: set_client_frame resolveEndPoint_frame)

lemma endpointUrl_after_resolve:
  "endpointUrl (client_of (set_client self (snd (resolveEndPoint reg ch (client_of w self))) w) c)
     = endpointUrl (client_of w c)"
  by (simp add: set_client_frame resolveEndPoint_frame)

lemma sessions_addSession:
  "sessions (client_of (addSession cid sid w) c)
     = (if c = cid then sessions (client_of w c) @ [sid] else sessions (client_of w c))"
  by (simp add: addSession_def)

lemma sessions_removeSession:
  "sessions (client_of (removeSession cid sid w) c)
     = (if c = cid then filter (\<lambda>x. x \<noteq> sid) (sessions (client_of w c))
        else sessions (client_of w c))"
  by (simp add: removeSession_def)

lemma reactivateSession_unfold:
  assumes ch: "secureChannel (client_of w self) = Some ch"
    and owner: "session_client (session_of w sid) = Some old"
  shows "reactivateSession reg self sid outcome w =
     (let c1 = snd (resolveEndPoint reg ch (client_of w self));
          w1 = set_client self c1 w
      in if \<not> fst (resolveEndPoint reg ch (client_of w self)) then (Some EndPointMustExist, w1)
         else if endpointUrl (client_of w old) \<noteq> endpointUrl (client_of w self) then
           (Some (AssertionError ''cannot reactivateSession on a different endpoint''), w1)
         else
           (let r = activateSession_internal reg self sid outcome w1
            in case fst r of
                 None \<Rightarrow>
                   (if old \<noteq> self
                    then (None, addSession self sid (removeSession old sid (snd r)))
                    else (None, snd r))
               | Some e \<Rightarrow> (Some e, snd r)))"
  using ch owner resolveEndPoint_endpoint [of reg ch "client_of w self"]
  by (auto simp: reactivateSession_def Let_def split_beta set_client_frame
                 resolveEndPoint_frame
           split: option.splits)


lemma sessions_after_activate:
  "sessions (client_of (snd (activateSession_internal reg self sid outcome w)) c)
     = sessions (client_of w c)"
  by (simp add: activateSession_client_of)

section \<open>C8: reactivation moves the session on success only\<close>

text \<open>
  C8: for every call of reactivate by client \<open>self\<close> on a session owned by client \<open>old\<close>:
  \<^item> if the endpoint URLs of \<open>old\<close> and \<open>self\<close> differ, the call fails with an endpoint
    mismatch (the assertion on the endpoint URL; before it, the assertion that the client
    is connected or the error that no endpoint could be resolved), no session is touched
    and every collection is as before;
  \<^item> on a connected client whose endpoint resolves, that assertion is the error when
    the URLs differ, and otherwise activate is performed and its error is the result;
  \<^item> on success with \<open>old \<noteq> self\<close>, the session is taken out of the collection of
    \<open>old\<close>, put into the collection of \<open>self\<close>, and every other collection is as before;
  \<^item> on failure every collection is as before: the session stays where it was.
\<close>

theorem reactivateSession_ownership:
  assumes run: "reactivateSession reg self sid outcome w = (err, w')"
    and owner: "session_client (session_of w sid) = Some old"
  shows
   "(endpointUrl (client_of w old) \<noteq> endpointUrl (client_of w self) \<longrightarrow>
       (err = Some (AssertionError ''client must be connected first'') \<or>
        err = Some EndPointMustExist \<or>
        err = Some (AssertionError ''cannot reactivateSession on a different endpoint'')) \<and>
       session_of w' = session_of w \<and>
       (\<forall>c. sessions (client_of w' c) = sessions (client_of w c))) \<and>
    (\<forall>ch. secureChannel (client_of w self) = Some ch \<and>
          fst (resolveEndPoint reg ch (client_of w self)) \<longrightarrow>
       (if endpointUrl (client_of w old) \<noteq> endpointUrl (client_of w self)
        then err = Some (AssertionError ''cannot reactivateSession on a different endpoint'')
        else err = fst (activateSession_internal reg self sid outcome
                     (set_client self (snd (resolveEndPoint reg ch (client_of w self))) w)))) \<and>
    (err = None \<and> old \<noteq> self \<longrightarrow>
       endpointUrl (client_of w old) = endpointUrl (client_of w self) \<and>
       sessions (client_of w' old) = filter (\<lambda>x. x \<noteq> sid) (sessions (client_of w old)) \<and>
       sessions (client_of w' self) = sessions (client_of w self) @ [sid] \<and>
       (\<forall>c. c \<noteq> old \<and> c \<noteq> self \<longrightarrow> sessions (client_of w' c) = sessions (client_of w c))) \<and>
    (err \<noteq> None \<longrightarrow> (\<forall>c. sessions (client_of w' c) = sessions (client_of w c)))"
proof (cases "secureChannel (client_of w self)")
  case None
  with run show ?thesis
    by (auto simp: reactivateSession_def)
next
  case (Some ch)
  from run show ?thesis
    unfolding reactivateSession_unfold [OF Some owner]
    by (auto simp: Let_def Some sessions_after_activate sessions_after_resolve
                   sessions_addSession sessions_removeSession set_client_frame
                   resolveEndPoint_frame
             split: if_splits option.splits)
qed

text \<open>
  Session 21 of client 2: client 3 sits on another endpoint URL and is refused; client 1
  takes the session over when the server answers Good, and does not when it answers with
  a bad status.
\<close>

theorem reactivateSession_ownership_witness:
  "fst (reactivateSession demo_registry 3 21 (Inr (activate_response Good None)) demo_world)
     = Some (AssertionError ''cannot reactivateSession on a different endpoint'') \<and>
   sessions (client_of (snd (reactivateSession demo_registry 3 21
               (Inr (activate_response Good None)) demo_world)) 2) = [21] \<and>
   sessions (client_of (snd (reactivateSession demo_registry 3 21
               (Inr (activate_response Good None)) demo_world)) 3) = [] \<and>
   session_client (session_of (snd (reactivateSession demo_registry 3 21
               (Inr (activate_response Good None)) demo_world)) 21) = Some 2 \<and>
   fst (reactivateSession demo_registry 1 21 (Inr (activate_response Good None)) demo_world)
     = None \<and>
   sessions (client_of (snd (reactivateSession demo_registry 1 21
               (Inr (activate_response Good None)) demo_world)) 2) = [] \<and>
   sessions (client_of (snd (reactivateSession demo_registry 1 21
               (Inr (activate_response Good None)) demo_world)) 1) = [11, 12, 13, 21] \<and>
   fst (reactivateSession demo_registry 1 21
          (Inr (activate_response (BadStatus 5) None)) demo_world)
     = Some (ActivationRejected (BadStatus 5)) \<and>
   sessions (client_of (snd (reactivateSession demo_registry 1 21
               (Inr (activate_response (BadStatus 5) None)) demo_world)) 2) = [21] \<and>
   sessions (client_of (snd (reactivateSession demo_registry 1 21
               (Inr (activate_response (BadStatus 5) None)) demo_world)) 1) = [11, 12, 13]"
proof -
  let ?a = "reactivateSession demo_registry 3 21 (Inr (activate_response Good None)) demo_world"
  let ?b = "reactivateSession demo_registry 1 21 (Inr (activate_response Good None)) demo_world"
  let ?c = "reactivateSession demo_registry 1 21
              (Inr (activate_response (BadStatus 5) None)) demo_world"
  have owner: "session_client (session_of demo_world 21) = Some 2"
    by (simp add: demo_defs)
  have s1: "sessions (client_of demo_world 1) = [11, 12, 13]"
    and s2: "sessions (client_of demo_world 2) = [21]"
    and s3: "sessions (client_of demo_world 3) = []"
    by (simp_all add: demo_defs)
  have u3: "endpointUrl (client_of demo_world 2) \<noteq> endpointUrl (client_of demo_world 3)"
    by (simp add: demo_defs)
  have a: "fst ?a = Some (AssertionError ''cannot reactivateSession on a different endpoint'')"
    by (simp add: run_defs demo_defs store_defs endpoint_defs token_defs)
  have b: "fst ?b = None"
    by (simp add: run_defs demo_defs store_defs endpoint_defs token_defs)
  have c: "fst ?c = Some (ActivationRejected (BadStatus 5))"
    by (simp add: run_defs demo_defs store_defs endpoint_defs token_defs)
  have ra: "?a = (fst ?a, snd ?a)" and rb: "?b = (fst ?b, snd ?b)" and rc: "?c = (fst ?c, snd ?c)"
    by simp_all
  note ta = reactivateSession_ownership [OF ra owner]
  note tb = reactivateSession_ownership [OF rb owner]
  note tc = reactivateSession_ownership [OF rc owner]
  from ta u3 have fa: "session_of (snd ?a) = session_of demo_world"
    and ca: "\<forall>c. sessions (client_of (snd ?a) c) = sessions (client_of demo_world c)"
    by blast+
  from tb b have cb2: "sessions (client_of (snd ?b) 2)
                         = filter (\<lambda>x. x \<noteq> 21) (sessions (client_of demo_world 2))"
    and cb1: "sessions (client_of (snd ?b) 1) = sessions (client_of demo_world 1) @ [21]"
    by simp_all
  from tc c have cc: "\<forall>c. sessions (client_of (snd ?c) c) = sessions (client_of demo_world c)"
    by simp
  from a ca fa owner b cb2 cb1 c cc s1 s2 s3 show ?thesis
    by simp
qed

section \<open>C10: reactivation by the owner\<close>

text \<open>
  C10: when reactivate is called by the client that already owns the session and the
  activation succeeds, no collection is changed: the session is neither removed nor
  inserted again, and the collection of the client (as that of every client) is the same
  before and after the call.
\<close>

theorem reactivateSession_same_client_keeps_collections:
  assumes run: "reactivateSession reg self sid outcome w = (None, w')"
    and owner: "session_client (session_of w sid) = Some self"
  shows "\<forall>c. sessions (client_of w' c) = sessions (client_of w c)"
proof (cases "secureChannel (client_of w self)")
  case None
  with run show ?thesis
    by (simp add: reactivateSession_def)
next
  case (Some ch)
  from run show ?thesis
    unfolding reactivateSession_unfold [OF Some owner]
    by (auto simp: Let_def sessions_after_activate sessions_after_resolve
             split: if_splits option.splits)
qed

text \<open>Client 1 reactivates its own session 11.\<close>

theorem reactivateSession_same_client_keeps_collections_witness:
  "session_client (session_of demo_world 11) = Some 1 \<and>
   fst (reactivateSession demo_registry 1 11 (Inr (activate_response Good None)) demo_world)
     = None \<and>
   (\<forall>c. sessions (client_of (snd (reactivateSession demo_registry 1 11
                   (Inr (activate_response Good None)) demo_world)) c)
        = sessions (client_of demo_world c)) \<and>
   sessions (client_of demo_world 1) = [11, 12, 13]"
proof -
  let ?r = "reactivateSession demo_registry 1 11 (Inr (activate_response Good None)) demo_world"
  have owner: "session_client (session_of demo_world 11) = Some 1"
    by (simp add: demo_defs)
  have ok: "fst ?r = None"
    by (simp add: run_defs demo_defs store_defs endpoint_defs token_defs)
  then have run: "?r = (None, snd ?r)"
    by (simp add: prod_eq_iff)
  have coll: "sessions (client_of demo_world 1) = [11, 12, 13]"
    by (simp add: demo_defs)
  from reactivateSession_same_client_keeps_collections [OF run owner] owner ok coll
  show ?thesis
    by (intro conjI)
qed


section \<open>C4: which sessions a reconnection goes through\<close>


























section \<open>C9: when a session leaves its collection\<close>

text \<open>
  The claim says that a session whose activation fails right after its creation does not
  remain in the collection. \<open>createSession\<close> adds the session before it activates it
  and nothing removes it afterwards: the server rejects the activation of the new session
  30, and session 30 is in the collection of client 1.
\<close>

theorem failed_activation_keeps_session_counterexample:
  "fst (createSession demo_registry 1 None (replicate 32 7)
          (Inr (good_create_response None))
          (Inr (activate_response (BadStatus 1) None)) demo_world)
     = (Some (ActivationRejected (BadStatus 1)), Some 30) \<and>
   sessions (client_of (snd (createSession demo_registry 1 None (replicate 32 7)
          (Inr (good_create_response None))
          (Inr (activate_response (BadStatus 1) None)) demo_world)) 1)
     = [11, 12, 13, 30]"
  by (simp add: run_defs demo_defs store_defs endpoint_defs token_defs)

lemma createSession_internal_client_sessions:
  "sessions (client_of (snd (createSession_internal reg self rnd outcome w)) c)
     = sessions (client_of w c)"
  by (simp add: createSession_internal_def Let_def split_beta set_client_frame
        resolveEndPoint_frame set_session_def set_client_def
      split: option.splits sum.splits)

text \<open>
  C9, amended: a session is removed from its owning client's collection on explicit
  close, whatever the CloseSession exchange gives (a response with any result code, a
  transport error, or no channel at all), and no other collection is changed. A failing
  activation removes nothing: after create-then-activate where the activation step fails,
  the new session is in the client's collection.
\<close>

theorem close_removes_failed_activation_keeps:
  "(session_client (session_of w sid) = Some self \<longrightarrow>
      fst (closeSession self sid outcome w)
        = fst (closeSession_internal (client_of w self) outcome) \<and>
      sid \<notin> set (sessions (client_of (snd (closeSession self sid outcome w)) self)) \<and>
      (\<forall>c. sessions (client_of (snd (closeSession self sid outcome w)) c)
            = (if c = self then filter (\<lambda>x. x \<noteq> sid) (sessions (client_of w c))
               else sessions (client_of w c)))) \<and>
   (createSession reg self info rnd create_outcome activate_outcome w
      = ((Some e, Some new), w') \<longrightarrow>
      sessions (client_of w' self) = sessions (client_of w self) @ [new])"
proof -
  have close: "session_client (session_of w sid) = Some self \<longrightarrow>
      fst (closeSession self sid outcome w)
        = fst (closeSession_internal (client_of w self) outcome) \<and>
      sid \<notin> set (sessions (client_of (snd (closeSession self sid outcome w)) self)) \<and>
      (\<forall>c. sessions (client_of (snd (closeSession self sid outcome w)) c)
            = (if c = self then filter (\<lambda>x. x \<noteq> sid) (sessions (client_of w c))
               else sessions (client_of w c)))"
    by (simp add: closeSession_def split_beta sessions_removeSession)
  have "createSession reg self info rnd create_outcome activate_outcome w
      = ((Some e, Some new), w') \<longrightarrow>
      sessions (client_of w' self) = sessions (client_of w self) @ [new]"
  proof
    let ?w0 = "set_client self ((client_of w self)\<lparr>userIdentityInfo := info\<rparr>) w"
    let ?c = "createSession_internal reg self rnd create_outcome ?w0"
    assume run: "createSession reg self info rnd create_outcome activate_outcome w
      = ((Some e, Some new), w')"
    then obtain n where created: "fst ?c = Inr n"
      by (cases "fst ?c") (simp_all add: createSession_def Let_def split_beta)
    from run created have new: "new = n"
      and w': "w' = snd (activateSession_internal reg self n activate_outcome
                          (addSession self n (snd ?c)))"
      by (auto simp: createSession_def Let_def split_beta)
    have "sessions (client_of w' self) = sessions (client_of (snd ?c) self) @ [n]"
      unfolding w' by (simp add: sessions_after_activate sessions_addSession)
    also have "sessions (client_of (snd ?c) self) = sessions (client_of ?w0 self)"
      by (rule createSession_internal_client_sessions)
    also have "\<dots> = sessions (client_of w self)"
      by (simp add: set_client_frame)
    finally show "sessions (client_of w' self) = sessions (client_of w self) @ [new]"
      using new by simp
  qed
  with close show ?thesis
    by (rule conjI)
qed

text \<open>
  Client 1 closes its session 11, once with a transport error and once with a bad result
  code; and it creates a session whose activation runs into a transport error.
\<close>

theorem close_removes_failed_activation_keeps_witness:
  "session_client (session_of demo_world 11) = Some 1 \<and>
   fst (closeSession 1 11 (Inl (TransportError ''timeout'')) demo_world)
     = Some (TransportError ''timeout'') \<and>
   sessions (client_of (snd (closeSession 1 11 (Inl (TransportError ''timeout'')) demo_world)) 1)
     = [12, 13] \<and>
   fst (closeSession 1 11 (Inr (BadStatus 7)) demo_world) = None \<and>
   sessions (client_of (snd (closeSession 1 11 (Inr (BadStatus 7)) demo_world)) 1) = [12, 13] \<and>
   fst (createSession demo_registry 1 None (replicate 32 7)
          (Inr (good_create_response None)) (Inl (TransportError ''timeout'')) demo_world)
     = (Some (TransportError ''timeout''), Some 30) \<and>
   sessions (client_of (snd (createSession demo_registry 1 None (replicate 32 7)
          (Inr (good_create_response None)) (Inl (TransportError ''timeout'')) demo_world)) 1)
     = [11, 12, 13, 30]"
proof -
  let ?a = "closeSession 1 11 (Inl (TransportError ''timeout'')) demo_world"
  let ?b = "closeSession 1 11 (Inr (BadStatus 7)) demo_world"
  let ?c = "createSession demo_registry 1 None (replicate 32 7)
          (Inr (good_create_response None)) (Inl (TransportError ''timeout'')) demo_world"
  have owner: "session_client (session_of demo_world 11) = Some 1"
    by (simp add: demo_defs)
  have coll: "sessions (client_of demo_world 1) = [11, 12, 13]"
    by (simp add: demo_defs)
  have ch: "secureChannel (client_of demo_world 1) = Some demo_channel"
    by (simp add: demo_world_def demo_client_def OPCUAClient_def)
  note ta = close_removes_failed_activation_keeps
              [where w = demo_world and sid = 11 and self = 1
                 and outcome = "Inl (TransportError ''timeout'')", THEN conjunct1, rule_format,
               OF owner]
  note tb = close_removes_failed_activation_keeps
              [where w = demo_world and sid = 11 and self = 1
                 and outcome = "Inr (BadStatus 7)", THEN conjunct1, rule_format, OF owner]
  have c: "fst ?c = (Some (TransportError ''timeout''), Some 30)"
    by (simp add: run_defs demo_defs store_defs endpoint_defs token_defs)
  then have rc: "?c = ((Some (TransportError ''timeout''), Some 30), snd ?c)"
    by (simp add: prod_eq_iff)
  note tc = close_removes_failed_activation_keeps
              [THEN conjunct2, rule_format, OF rc]
  from ta ch have a1: "fst ?a = Some (TransportError ''timeout'')"
    by (simp add: closeSession_internal_def)
  from ta coll have a2: "sessions (client_of (snd ?a) 1) = [12, 13]"
    by simp
  from tb ch have b1: "fst ?b = None"
    by (simp add: closeSession_internal_def)
  from tb coll have b2: "sessions (client_of (snd ?b) 1) = [12, 13]"
    by simp
  from tc coll have c2: "sessions (client_of (snd ?c) 1) = [11, 12, 13, 30]"
    by simp
  from owner a1 a2 b1 b2 c c2 show ?thesis
    by (intro conjI)
qed

end
